theory Spec2Isabelle
  imports Main
begin

section \<open>The remote-configuration launcher (scripts/remote_config_wrapper.c)\<close>

text \<open>
  The program is one C function, \<^verbatim>\<open>main\<close>: it checks \<^verbatim>\<open>argc\<close>, prints a usage line with
  \<^verbatim>\<open>fprintf(stderr, ...)\<close> when the count is wrong, and otherwise calls \<^verbatim>\<open>execl\<close> on
  \<^verbatim>\<open>/bin/bash\<close> with a fixed script and \<^verbatim>\<open>argv[1]\<close>; when \<^verbatim>\<open>execl\<close> comes back it calls
  \<^verbatim>\<open>perror\<close> and returns 1.

  The embedding keeps the C view of the data: a \<^verbatim>\<open>char *\<close> is a string or the null pointer,
  \<^verbatim>\<open>argv\<close> is an array of such pointers, the process state is a record that every library
  call takes and returns, and a read outside an array or a malformed format directive,
  which C leaves undefined, is a result of its own.

  The library is the C library of the target system (glibc on Debian bookworm). The
  error stream is taken to be open and to accept every write; a run whose \<^verbatim>\<open>stderr\<close> is
  closed or a broken pipe is outside the model.
\<close>

subsection \<open>C data\<close>

text \<open>A \<^verbatim>\<open>char *\<close>: \<open>None\<close> is the null pointer, \<open>Some s\<close> points to the string \<open>s\<close>.\<close>

type_synonym cptr = "string option"

text \<open>The line feed, \<^verbatim>\<open>'\n'\<close>.\<close>

definition newline :: char where
  "newline = CHR 0x0A"

text \<open>
  Reading \<^verbatim>\<open>a[i]\<close>: inside the array the element, outside it nothing (an out-of-bounds
  read is undefined in C).
\<close>

definition array_read :: "'a list \<Rightarrow> nat \<Rightarrow> 'a option" where
  "array_read a i = (if i < length a then Some (a ! i) else None)"

subsection \<open>The process and its surroundings\<close>

text \<open>One call of \<^verbatim>\<open>execve\<close>: the image file, the argument vector and the environment.\<close>

record exec_call =
  exec_path :: string
  arg_vec :: "string list"
  env_vec :: "string list"

text \<open>The library calls \<^verbatim>\<open>main\<close> can make, with what each one was given.\<close>

datatype libcall =
  Fprintf_stderr string
  | Execl exec_call
  | Perror string

text \<open>
  The state of the process: the bytes written to the two standard streams, the files it
  has written (path and content), the environment (\<^verbatim>\<open>environ\<close>), \<^verbatim>\<open>errno\<close>, and the
  library calls made so far, oldest first.
\<close>

record world =
  err_stream :: string
  out_stream :: string
  files :: "(string \<times> string) list"
  environ :: "string list"
  errno :: nat
  calls :: "libcall list"

text \<open>
  What the program does not decide: the text \<^verbatim>\<open>strerror\<close> has for an error number, the
  kernel's answer to an \<^verbatim>\<open>execve\<close> (\<open>None\<close>: the image is replaced; \<open>Some e\<close>: the call
  returns -1 with \<^verbatim>\<open>errno = e\<close>), and what a call of the standard I/O library leaves in
  \<^verbatim>\<open>errno\<close>, given what was there (such a call may change \<^verbatim>\<open>errno\<close> even when it succeeds).
\<close>

record platform =
  strerror :: "nat \<Rightarrow> string"
  execve :: "exec_call \<Rightarrow> nat option"
  stdio_errno :: "nat \<Rightarrow> nat"

text \<open>
  How a run of \<^verbatim>\<open>main\<close> ends: it returns a status, or the process image is replaced by
  the call given (and no statement of \<^verbatim>\<open>main\<close> runs after it), or it reaches an operation
  that is undefined.
\<close>

datatype run =
  Returned int world
  | Replaced exec_call world
  | Undefined

subsection \<open>The library calls\<close>

text \<open>
  What \<^verbatim>\<open>%s\<close> writes for its argument: the string pointed to, and for the null pointer the
  six characters \<^verbatim>\<open>(null)\<close>, as the C library of the target does (ISO C leaves that case
  open; glibc documents it).
\<close>

fun percent_s :: "cptr \<Rightarrow> string" where
  "percent_s None = ''(null)''"
| "percent_s (Some s) = s"

text \<open>
  The conversions of \<^verbatim>\<open>printf\<close> that the program uses: \<^verbatim>\<open>%s\<close> consumes one argument,
  \<^verbatim>\<open>%%\<close> is a percent sign, every other character is copied. A \<^verbatim>\<open>%s\<close> with no argument
  left and a conversion outside this fragment are undefined: the result is \<open>None\<close>.
\<close>

fun format :: "string \<Rightarrow> cptr list \<Rightarrow> string option" where
  "format [] ps = Some []"
| "format [c] ps = (if c = CHR ''%'' then None else Some [c])"
| "format (c # d # fmt) ps =
     (if c = CHR ''%'' then
        (if d = CHR ''s'' then
           (case ps of
              [] \<Rightarrow> None
            | a # ps' \<Rightarrow> map_option (\<lambda>r. percent_s a @ r) (format fmt ps'))
         else if d = CHR ''%'' then map_option (\<lambda>r. CHR ''%'' # r) (format fmt ps)
         else None)
      else map_option (\<lambda>r. c # r) (format (d # fmt) ps))"

text \<open>
  \<^verbatim>\<open>fprintf(stderr, fmt, ...)\<close>: the formatted text is appended to the error stream, and
  \<^verbatim>\<open>errno\<close> is what the library leaves there. The program ignores the value \<^verbatim>\<open>fprintf\<close>
  returns.
\<close>

definition fprintf_stderr :: "platform \<Rightarrow> string \<Rightarrow> cptr list \<Rightarrow> world \<Rightarrow> world option"
  where
  "fprintf_stderr P fmt ps w =
     (case format fmt ps of
        None \<Rightarrow> None
      | Some t \<Rightarrow> Some (w\<lparr>err_stream := err_stream w @ t,
                          errno := stdio_errno P (errno w),
                          calls := calls w @ [Fprintf_stderr t]\<rparr>))"

text \<open>
  \<^verbatim>\<open>perror(s)\<close> (C11 7.21.10.4): when \<^verbatim>\<open>s\<close> is not null and not empty, \<^verbatim>\<open>s\<close>, a colon and a
  space; then the message of \<^verbatim>\<open>strerror\<close> for the \<^verbatim>\<open>errno\<close> found at the call, and a line
  feed. Afterwards \<^verbatim>\<open>errno\<close> is what the library leaves there, not the value reported.
\<close>

definition perror_text :: "platform \<Rightarrow> cptr \<Rightarrow> nat \<Rightarrow> string" where
  "perror_text P s e =
     (case s of
        None \<Rightarrow> []
      | Some t \<Rightarrow> (if t = [] then [] else t @ '': '')) @ strerror P e @ [newline]"

definition perror :: "platform \<Rightarrow> cptr \<Rightarrow> world \<Rightarrow> world" where
  "perror P s w =
     w\<lparr>err_stream := err_stream w @ perror_text P s (errno w),
       errno := stdio_errno P (errno w),
       calls := calls w @ [Perror (perror_text P s (errno w))]\<rparr>"

text \<open>
  \<^verbatim>\<open>execl(path, arg0, ..., (char *)NULL)\<close>: the arguments up to the first null pointer are
  the new image's argument vector, and the environment is the caller's \<^verbatim>\<open>environ\<close>. The
  list is given with its closing null pointer, as the call site writes it. The kernel
  either replaces the image (\<open>Inl\<close>, with the call made) or the call returns with
  \<^verbatim>\<open>errno\<close> set (\<open>Inr\<close>).
\<close>

definition execl :: "platform \<Rightarrow> string \<Rightarrow> cptr list \<Rightarrow> world \<Rightarrow> (exec_call + unit) \<times> world"
  where
  "execl P p ps w =
     (let c = \<lparr>exec_path = p,
               arg_vec = map the (takeWhile (\<lambda>a. a \<noteq> None) ps),
               env_vec = environ w\<rparr>;
          w1 = w\<lparr>calls := calls w @ [Execl c]\<rparr>
      in case execve P c of
           None \<Rightarrow> (Inl c, w1)
         | Some e \<Rightarrow> (Inr (), w1\<lparr>errno := e\<rparr>))"

subsection \<open>The program\<close>

definition usage_fmt :: string where
  "usage_fmt = ''Usage: %s <remote_config_folder>'' @ [newline]"

definition bash_path :: string where
  "bash_path = ''/bin/bash''"

definition script_path :: string where
  "script_path = ''/home/volumio/Quadify/scripts/install_remote_config.sh''"

text \<open>
  \<^verbatim>\<open>main\<close>, statement by statement. The variadic list of \<^verbatim>\<open>execl\<close> is written as in the
  source, its closing \<^verbatim>\<open>(char *)NULL\<close> included.
\<close>

definition main :: "platform \<Rightarrow> int \<Rightarrow> cptr list \<Rightarrow> world \<Rightarrow> run" where
  "main P argc argv w =
     (if argc \<noteq> 2 then
        (case array_read argv 0 of
           None \<Rightarrow> Undefined
         | Some a0 \<Rightarrow>
             (case fprintf_stderr P usage_fmt [a0] w of
                None \<Rightarrow> Undefined
              | Some w1 \<Rightarrow> Returned 1 w1))
      else
        (case array_read argv 1 of
           None \<Rightarrow> Undefined
         | Some a1 \<Rightarrow>
             (case execl P bash_path [Some ''bash'', Some script_path, a1, None] w of
                (Inl c, w1) \<Rightarrow> Replaced c w1
              | (Inr _, w1) \<Rightarrow> Returned 1 (perror P (Some ''execl failed'') w1))))"

text \<open>
  Program start in a hosted environment (C11 5.1.2.2.1): \<^verbatim>\<open>argc\<close> is the number of strings
  passed, \<^verbatim>\<open>argv[0 .. argc-1]\<close> point to them, \<^verbatim>\<open>argv[argc]\<close> is the null pointer, and no
  library call has been made yet. \<open>args\<close> holds the program name first, when there is one.
\<close>

definition launch :: "platform \<Rightarrow> string list \<Rightarrow> world \<Rightarrow> run" where
  "launch P args w =
     main P (int (length args)) (map Some args @ [None]) (w\<lparr>calls := []\<rparr>)"

subsection \<open>Observing a run\<close>

text \<open>The state a run ends in; an undefined run has none.\<close>

fun run_world :: "run \<Rightarrow> world option" where
  "run_world (Returned n w) = Some w"
| "run_world (Replaced c w) = Some w"
| "run_world Undefined = None"

text \<open>The status \<^verbatim>\<open>main\<close> itself returns, when it returns.\<close>

fun returned_status :: "run \<Rightarrow> int option" where
  "returned_status (Returned n w) = Some n"
| "returned_status (Replaced c w) = None"
| "returned_status Undefined = None"

text \<open>The call that replaced the process image, when one did.\<close>

fun replaced_by :: "run \<Rightarrow> exec_call option" where
  "replaced_by (Returned n w) = None"
| "replaced_by (Replaced c w) = Some c"
| "replaced_by Undefined = None"

text \<open>
  The exit status the invoker sees. \<open>img c\<close> is the status the image started by the call
  \<open>c\<close> ends with (\<open>None\<close> when it never exits): after a replacement the status is the new
  image's, otherwise it is what \<^verbatim>\<open>main\<close> returned.
\<close>

fun observed_status :: "(exec_call \<Rightarrow> int option) \<Rightarrow> run \<Rightarrow> int option" where
  "observed_status img (Returned n w) = Some n"
| "observed_status img (Replaced c w) = img c"
| "observed_status img Undefined = None"

text \<open>The \<^verbatim>\<open>execve\<close> calls in a list of library calls, and the texts written to \<^verbatim>\<open>stderr\<close>.\<close>

fun execs_of :: "libcall list \<Rightarrow> exec_call list" where
  "execs_of [] = []"
| "execs_of (Execl c # ls) = c # execs_of ls"
| "execs_of (Fprintf_stderr t # ls) = execs_of ls"
| "execs_of (Perror t # ls) = execs_of ls"

fun stderr_writes :: "libcall list \<Rightarrow> string list" where
  "stderr_writes [] = []"
| "stderr_writes (Fprintf_stderr t # ls) = t # stderr_writes ls"
| "stderr_writes (Perror t # ls) = t # stderr_writes ls"
| "stderr_writes (Execl c # ls) = stderr_writes ls"

definition attempted_execs :: "run \<Rightarrow> exec_call list" where
  "attempted_execs r = (case run_world r of None \<Rightarrow> [] | Some w \<Rightarrow> execs_of (calls w))"

text \<open>What the error stream of \<open>w'\<close> holds beyond that of \<open>w\<close>, and the same for a run.\<close>

definition written_err :: "world \<Rightarrow> world \<Rightarrow> string" where
  "written_err w w' = drop (length (err_stream w)) (err_stream w')"

definition run_written :: "world \<Rightarrow> run \<Rightarrow> string option" where
  "run_written w r = map_option (written_err w) (run_world r)"

text \<open>A text is one line when its only line feed is its last character.\<close>

definition single_line :: "string \<Rightarrow> bool" where
  "single_line t \<longleftrightarrow> t \<noteq> [] \<and> last t = newline \<and> newline \<notin> set (butlast t)"


text \<open>The \<^verbatim>\<open>execve\<close> call that line 11 of the source makes for the argument \<open>a\<close>.\<close>

definition main_exec_call :: "string \<Rightarrow> world \<Rightarrow> exec_call" where
  "main_exec_call a w =
     \<lparr>exec_path = ''/bin/bash'',
      arg_vec = [''bash'', ''/home/volumio/Quadify/scripts/install_remote_config.sh'', a],
      env_vec = environ w\<rparr>"

subsection \<open>Relating two runs\<close>

text \<open>
  \<open>retarget b\<close> puts \<open>b\<close> in the last place of the argument vector of every \<^verbatim>\<open>execve\<close> call
  of a run and changes nothing else.
\<close>

definition retarget_call :: "string \<Rightarrow> exec_call \<Rightarrow> exec_call" where
  "retarget_call b c =
     c\<lparr>arg_vec := (if arg_vec c = [] then [] else butlast (arg_vec c) @ [b])\<rparr>"

fun retarget_libcall :: "string \<Rightarrow> libcall \<Rightarrow> libcall" where
  "retarget_libcall b (Execl c) = Execl (retarget_call b c)"
| "retarget_libcall b (Fprintf_stderr t) = Fprintf_stderr t"
| "retarget_libcall b (Perror t) = Perror t"

definition retarget_world :: "string \<Rightarrow> world \<Rightarrow> world" where
  "retarget_world b w = w\<lparr>calls := map (retarget_libcall b) (calls w)\<rparr>"

fun retarget :: "string \<Rightarrow> run \<Rightarrow> run" where
  "retarget b (Returned n w) = Returned n (retarget_world b w)"
| "retarget b (Replaced c w) = Replaced (retarget_call b c) (retarget_world b w)"
| "retarget b Undefined = Undefined"




subsection \<open>Concrete surroundings for the instances\<close>

text \<open>Some of the messages \<^verbatim>\<open>strerror\<close> has on Linux (2 \<^verbatim>\<open>ENOENT\<close>, 7 \<^verbatim>\<open>E2BIG\<close>, 13 \<^verbatim>\<open>EACCES\<close>).\<close>

definition linux_strerror :: "nat \<Rightarrow> string" where
  "linux_strerror e =
     (if e = 2 then ''No such file or directory''
      else if e = 7 then ''Argument list too long''
      else if e = 13 then ''Permission denied''
      else ''Unknown error'')"

text \<open>
  The kernel's \<^verbatim>\<open>execve\<close> over a file system whose executable files are \<open>fs\<close>: it resolves
  the path of the image and nothing else (the argument vector is for the new image to
  read), and a missing image is error 2.
\<close>

definition execve_on :: "string list \<Rightarrow> exec_call \<Rightarrow> nat option" where
  "execve_on fs c = (if exec_path c \<in> set fs then None else Some 2)"

text \<open>
  A system with no executable file, so that every \<^verbatim>\<open>execve\<close> is refused; one that accepts
  every \<^verbatim>\<open>execve\<close>; one that has the interpreter but not the script; and one whose kernel
  refuses an argument vector of more than 80 characters with error 7.
\<close>

definition refusing :: platform where
  "refusing = \<lparr>strerror = linux_strerror, execve = execve_on [], stdio_errno = (\<lambda>e. 22)\<rparr>"

definition accepting :: platform where
  "accepting = \<lparr>strerror = linux_strerror, execve = (\<lambda>c. None), stdio_errno = (\<lambda>e. e)\<rparr>"

definition only_bash :: platform where
  "only_bash =
     \<lparr>strerror = linux_strerror, execve = execve_on [''/bin/bash''], stdio_errno = (\<lambda>e. e)\<rparr>"

definition limited :: platform where
  "limited =
     \<lparr>strerror = linux_strerror,
      execve = (\<lambda>c. if 80 < sum_list (map length (arg_vec c)) then Some 7 else None),
      stdio_errno = (\<lambda>e. e)\<rparr>"

text \<open>The status \<^verbatim>\<open>bash\<close> ends with when it cannot open the script it was given.\<close>

definition bash_without_script :: "exec_call \<Rightarrow> int option" where
  "bash_without_script c = Some 127"

text \<open>A process that has written nothing yet.\<close>

definition fresh :: world where
  "fresh = \<lparr>err_stream = [], out_stream = [], files = [],
            environ = [''HOME=/home/volumio''], errno = 0, calls = []\<rparr>"

section \<open>The paths of \<open>main\<close>\<close>

lemma format_usage:
  "format usage_fmt [a] =
     Some (''Usage: '' @ percent_s a @ '' <remote_config_folder>'' @ [newline])"
  by (simp add: usage_fmt_def newline_def)

text \<open>\<^verbatim>\<open>argv[0]\<close> at program start, and what \<^verbatim>\<open>%s\<close> shows for it.\<close>

lemma argv_0:
  "array_read (map Some args @ [None]) 0 = Some (case args of [] \<Rightarrow> None | p # us \<Rightarrow> Some p)"
  by (cases args) (simp_all add: array_read_def)

lemma percent_s_argv_0:
  "percent_s (case args of [] \<Rightarrow> None | p # us \<Rightarrow> Some p) =
     (case args of [] \<Rightarrow> ''(null)'' | p # us \<Rightarrow> p)"
  by (cases args) simp_all

text \<open>With a number of strings other than two: the usage line.\<close>

lemma launch_usage:
  "length args \<noteq> 2 \<Longrightarrow>
   launch P args w =
     Returned 1
       (w\<lparr>err_stream := err_stream w @ ''Usage: '' @
            (case args of [] \<Rightarrow> ''(null)'' | p # us \<Rightarrow> p) @
            '' <remote_config_folder>'' @ [newline],
          errno := stdio_errno P (errno w),
          calls := [Fprintf_stderr (''Usage: '' @
            (case args of [] \<Rightarrow> ''(null)'' | p # us \<Rightarrow> p) @
            '' <remote_config_folder>'' @ [newline])]\<rparr>)"
  by (simp add: launch_def main_def argv_0 fprintf_stderr_def format_usage percent_s_argv_0)

text \<open>With a program name and one argument: the \<^verbatim>\<open>execve\<close>, and what follows its answer.\<close>

lemma launch_exec_ok:
  "execve P (main_exec_call a w) = None \<Longrightarrow>
   launch P [p, a] w =
     Replaced (main_exec_call a w) (w\<lparr>calls := [Execl (main_exec_call a w)]\<rparr>)"
  by (simp add: launch_def main_def array_read_def execl_def main_exec_call_def
      bash_path_def script_path_def Let_def)

lemma launch_exec_fail:
  "execve P (main_exec_call a w) = Some e \<Longrightarrow>
   launch P [p, a] w =
     Returned 1
       (w\<lparr>err_stream := err_stream w @ ''execl failed: '' @ strerror P e @ [newline],
          errno := stdio_errno P e,
          calls := [Execl (main_exec_call a w),
                    Perror (''execl failed: '' @ strerror P e @ [newline])]\<rparr>)"
  by (simp add: launch_def main_def array_read_def execl_def main_exec_call_def
      bash_path_def script_path_def Let_def perror_def perror_text_def)

text \<open>The two shapes of an argument list that \<^verbatim>\<open>main\<close> tells apart.\<close>

lemma args_cases:
  obtains "length args \<noteq> 2" | p a where "args = [p, a]"
proof (cases "length args = 2")
  case True
  then obtain p us where a: "args = p # us" and "length us = 1"
    by (cases args) auto
  then obtain a where "us = [a]"
    by (cases us) auto
  with a show ?thesis using that by simp
next
  case False
  then show ?thesis using that by simp
qed

lemma execve_refusing [simp]: "execve refusing c = Some 2"
  by (simp add: refusing_def execve_on_def)

lemma execve_accepting [simp]: "execve accepting c = None"
  by (simp add: accepting_def)

lemma strerror_refusing [simp]: "strerror refusing e = linux_strerror e"
  by (simp add: refusing_def)





section \<open>The claims\<close>

text \<open>
  Claim C1: for every invocation with \<^verbatim>\<open>argc != 2\<close> the launcher writes the usage message
  with the invoking program name in it to the error stream, terminates with status 1, and
  never attempts the process replacement. The name shown is \<^verbatim>\<open>argv[0]\<close>; when there is
  none (\<^verbatim>\<open>argc = 0\<close>) the library shows \<^verbatim>\<open>(null)\<close> in its place.
\<close>

theorem usage_error_on_wrong_count:
  assumes "length args \<noteq> 2"
  shows "returned_status (launch P args w) = Some 1 \<and>
         run_written w (launch P args w) =
           Some (''Usage: '' @ (case args of [] \<Rightarrow> ''(null)'' | p # us \<Rightarrow> p) @
                 '' <remote_config_folder>'' @ [newline]) \<and>
         attempted_execs (launch P args w) = [] \<and>
         replaced_by (launch P args w) = None"
  by (simp add: launch_usage [OF assms] run_written_def written_err_def attempted_execs_def)

theorem usage_error_on_wrong_count_witness:
  "length [''wrapper'', ''/mnt/a'', ''/mnt/b''] \<noteq> 2 \<and>
   returned_status (launch accepting [''wrapper'', ''/mnt/a'', ''/mnt/b''] fresh) = Some 1 \<and>
   run_written fresh (launch accepting [''wrapper'', ''/mnt/a'', ''/mnt/b''] fresh) =
     Some (''Usage: wrapper <remote_config_folder>'' @ [newline]) \<and>
   attempted_execs (launch accepting [''wrapper'', ''/mnt/a'', ''/mnt/b''] fresh) = []"
proof -
  have h: "length [''wrapper'', ''/mnt/a'', ''/mnt/b''] \<noteq> 2"
    by simp
  from usage_error_on_wrong_count [OF h, of accepting fresh] h show ?thesis
    by simp
qed

text \<open>
  Claim C2: for any single argument \<open>A\<close>, the empty string and strings with blanks or
  shell metacharacters included, the launcher attempts exactly one process replacement:
  image \<^verbatim>\<open>/bin/bash\<close>, argument vector \<^verbatim>\<open>["bash", script, A]\<close> with \<open>A\<close> as it came, one
  element, unchanged.
\<close>

theorem exec_argument_vector:
  "attempted_execs (launch P [p, A] w) =
     [\<lparr>exec_path = ''/bin/bash'',
       arg_vec = [''bash'', ''/home/volumio/Quadify/scripts/install_remote_config.sh'', A],
       env_vec = environ w\<rparr>]"
proof (cases "execve P (main_exec_call A w)")
  case None
  from launch_exec_ok [OF this] show ?thesis
    by (simp add: attempted_execs_def main_exec_call_def)
next
  case (Some e)
  from launch_exec_fail [OF this] show ?thesis
    by (simp add: attempted_execs_def main_exec_call_def)
qed

text \<open>
  Claim C3: if the process-replacement call fails, for example because the interpreter
  binary or the script path does not exist, the launcher writes a diagnostic naming the
  failed operation and its cause to the error stream and terminates with status 1, with
  no partial execution of the script.

  As stated it fails for the missing script. \<^verbatim>\<open>execve\<close> is given \<^verbatim>\<open>/bin/bash\<close> as the image
  and the script path as an argument; where the interpreter exists and the script does
  not, the call succeeds, the launcher is replaced and writes nothing, and the status is
  the one \<^verbatim>\<open>bash\<close> ends with.
\<close>

theorem missing_script_still_replaces:
  "script_path \<notin> set [''/bin/bash''] \<and>
   replaced_by (launch only_bash [''wrapper'', ''/mnt/config''] fresh) =
     Some (main_exec_call ''/mnt/config'' fresh) \<and>
   returned_status (launch only_bash [''wrapper'', ''/mnt/config''] fresh) = None \<and>
   run_written fresh (launch only_bash [''wrapper'', ''/mnt/config''] fresh) = Some [] \<and>
   observed_status bash_without_script
     (launch only_bash [''wrapper'', ''/mnt/config''] fresh) = Some 127"
proof -
  have "execve only_bash (main_exec_call ''/mnt/config'' fresh) = None"
    by (simp add: only_bash_def execve_on_def main_exec_call_def)
  from launch_exec_ok [OF this] show ?thesis
    by (simp add: run_written_def written_err_def script_path_def bash_without_script_def)
qed

text \<open>
  Claim C3, amended: if the process-replacement call fails (the kernel refuses the
  \<^verbatim>\<open>execve\<close> of \<^verbatim>\<open>/bin/bash\<close> with an error \<open>e\<close>: the interpreter is missing, may not be
  executed, and so on), the launcher writes \<^verbatim>\<open>execl failed: \<close>, the system's message for
  \<open>e\<close> and a line feed to the error stream and returns 1; the image is not replaced, so
  nothing of the script has run.
\<close>

theorem exec_failure_reported:
  assumes "execve P (main_exec_call a w) = Some e"
  shows "returned_status (launch P [p, a] w) = Some 1 \<and>
         run_written w (launch P [p, a] w) =
           Some (''execl failed: '' @ strerror P e @ [newline]) \<and>
         replaced_by (launch P [p, a] w) = None"
  by (simp add: launch_exec_fail [OF assms] run_written_def written_err_def)

theorem exec_failure_reported_witness:
  "execve refusing (main_exec_call ''/mnt/config'' fresh) = Some 2 \<and>
   returned_status (launch refusing [''wrapper'', ''/mnt/config''] fresh) = Some 1 \<and>
   run_written fresh (launch refusing [''wrapper'', ''/mnt/config''] fresh) =
     Some (''execl failed: No such file or directory'' @ [newline]) \<and>
   replaced_by (launch refusing [''wrapper'', ''/mnt/config''] fresh) = None"
proof -
  have h: "execve refusing (main_exec_call ''/mnt/config'' fresh) = Some 2"
    by simp
  have s: "strerror refusing 2 = ''No such file or directory''"
    by (simp add: linux_strerror_def)
  show ?thesis
    using h exec_failure_reported [OF h, of "''wrapper''"] s by simp
qed

text \<open>
  Claim C4: after a successful process replacement no statement of the launcher runs: the
  run ends in the replacement with only the \<^verbatim>\<open>execl\<close> call made, and the status the invoker
  sees is the new image's. The \<^verbatim>\<open>perror\<close> and the \<^verbatim>\<open>return 1\<close> after the call run exactly
  when the call fails.
\<close>

theorem no_return_after_replacement:
  "(execve P (main_exec_call a w) = None \<longrightarrow>
      launch P [p, a] w =
        Replaced (main_exec_call a w) (w\<lparr>calls := [Execl (main_exec_call a w)]\<rparr>) \<and>
      observed_status img (launch P [p, a] w) = img (main_exec_call a w)) \<and>
   (returned_status (launch P [p, a] w) = Some 1 \<longleftrightarrow>
      execve P (main_exec_call a w) \<noteq> None) \<and>
   (stderr_writes (case run_world (launch P [p, a] w) of
                     None \<Rightarrow> []
                   | Some w' \<Rightarrow> calls w') \<noteq> [] \<longleftrightarrow>
      execve P (main_exec_call a w) \<noteq> None)"
proof (cases "execve P (main_exec_call a w)")
  case None
  from launch_exec_ok [OF this] None show ?thesis by simp
next
  case (Some e)
  from launch_exec_fail [OF this] Some show ?thesis by simp
qed

theorem no_return_after_replacement_witness:
  "execve accepting (main_exec_call ''/mnt/config'' fresh) = None \<and>
   launch accepting [''wrapper'', ''/mnt/config''] fresh =
     Replaced (main_exec_call ''/mnt/config'' fresh)
       (fresh\<lparr>calls := [Execl (main_exec_call ''/mnt/config'' fresh)]\<rparr>) \<and>
   observed_status (\<lambda>c. Some 0) (launch accepting [''wrapper'', ''/mnt/config''] fresh) =
     Some 0"
  using no_return_after_replacement
    [of accepting "''/mnt/config''" fresh "''wrapper''" "\<lambda>c. Some 0"]
  by simp

text \<open>
  Claim C5: the launcher never returns status 0 itself. Whenever \<^verbatim>\<open>main\<close> returns, it
  returns 1; a status 0 seen by the invoker comes from a replaced image.
\<close>

theorem never_returns_zero:
  "returned_status (launch P args w) \<in> {None, Some 1} \<and>
   (observed_status img (launch P args w) = Some 0 \<longrightarrow>
      replaced_by (launch P args w) \<noteq> None)"
proof (cases args rule: args_cases)
  case 1
  then show ?thesis by (simp add: launch_usage)
next
  case (2 p a)
  show ?thesis
  proof (cases "execve P (main_exec_call a w)")
    case None
    from launch_exec_ok [OF this] 2 show ?thesis by simp
  next
    case (Some e)
    from launch_exec_fail [OF this] 2 show ?thesis by simp
  qed
qed

theorem never_returns_zero_witness:
  "observed_status (\<lambda>c. Some 0) (launch accepting [''wrapper'', ''/mnt/config''] fresh) =
     Some 0 \<and>
   replaced_by (launch accepting [''wrapper'', ''/mnt/config''] fresh) \<noteq> None \<and>
   returned_status (launch refusing [''wrapper'', ''/mnt/config''] fresh) = Some 1 \<and>
   returned_status (launch accepting [''wrapper''] fresh) = Some 1"
proof -
  have o: "observed_status (\<lambda>c. Some 0)
             (launch accepting [''wrapper'', ''/mnt/config''] fresh) = Some 0"
    by (simp add: launch_exec_ok)
  have r: "returned_status (launch refusing [''wrapper'', ''/mnt/config''] fresh) = Some 1"
    by (simp add: launch_exec_fail)
  have u: "returned_status (launch accepting [''wrapper''] fresh) = Some 1"
    by (simp add: launch_usage)
  from never_returns_zero
    [of accepting "[''wrapper'', ''/mnt/config'']" fresh "\<lambda>c. Some 0"] o r u
  show ?thesis by simp
qed




text \<open>
  Claim C7: with \<^verbatim>\<open>argc == 0\<close>, so that even the program name is absent, the launcher
  writes a line containing \<^verbatim>\<open>Usage:\<close>, exits with status 1, and the formatting of the
  program name does not misbehave.

  \<^verbatim>\<open>argv\<close> is then the single null pointer \<^verbatim>\<open>argv[0]\<close>, for which \<^verbatim>\<open>%s\<close> writes \<^verbatim>\<open>(null)\<close>:
  the run is defined, writes the one line and returns 1, with no process replacement.
\<close>

theorem usage_without_program_name:
  "launch P [] w =
     Returned 1
       (w\<lparr>err_stream := err_stream w @ ''Usage: (null) <remote_config_folder>'' @ [newline],
          errno := stdio_errno P (errno w),
          calls := [Fprintf_stderr (''Usage: (null) <remote_config_folder>'' @ [newline])]\<rparr>) \<and>
   main P 0 [None] (w\<lparr>calls := []\<rparr>) = launch P [] w \<and>
   take 6 (''Usage: (null) <remote_config_folder>'' @ [newline]) = ''Usage:'' \<and>
   single_line (''Usage: (null) <remote_config_folder>'' @ [newline])"
proof -
  have "length ([] :: string list) \<noteq> 2"
    by simp
  from launch_usage [OF this] show ?thesis
    by (simp add: launch_def single_line_def newline_def)
qed

text \<open>
  Claim C8: the forwarded argument is opaque: two invocations that differ only in the
  argument take the same branch and produce the same error-stream output and exit
  status, and differ only in the last element of the argument vector of the \<^verbatim>\<open>execve\<close>.

  As stated it fails, because the kernel's answer to the \<^verbatim>\<open>execve\<close> may depend on the
  argument: under a kernel with a bound on the size of the argument vector, a short
  argument ends in the hand-off and a long one in the diagnostic and status 1.
\<close>

theorem opaque_up_to_kernel_limit:
  "returned_status (launch limited [''wrapper'', ''/mnt/config''] fresh) = None \<and>
   run_written fresh (launch limited [''wrapper'', ''/mnt/config''] fresh) = Some [] \<and>
   returned_status
     (launch limited [''wrapper'', ''/mnt/configuration/remote/control''] fresh) = Some 1 \<and>
   run_written fresh
     (launch limited [''wrapper'', ''/mnt/configuration/remote/control''] fresh) =
     Some (''execl failed: Argument list too long'' @ [newline])"
proof -
  have a: "execve limited (main_exec_call ''/mnt/config'' fresh) = None"
    by (simp add: limited_def main_exec_call_def)
  have b: "execve limited (main_exec_call ''/mnt/configuration/remote/control'' fresh) =
             Some 7"
    by (simp add: limited_def main_exec_call_def)
  have s: "strerror limited 7 = ''Argument list too long''"
    by (simp add: limited_def linux_strerror_def)
  from launch_exec_ok [OF a] launch_exec_fail [OF b] s show ?thesis
    by (simp add: run_written_def written_err_def)
qed

text \<open>
  Claim C8, amended: the forwarded argument is opaque to the launcher: two invocations
  that differ only in the argument, and to whose \<^verbatim>\<open>execve\<close> the kernel gives the same
  answer, take the same branch and produce the same error-stream output and exit status;
  the runs differ only in that argument as the last element of the argument vector, where
  each invocation's own argument stands.
\<close>

theorem argument_is_opaque:
  assumes "execve P (main_exec_call a w) = execve P (main_exec_call b w)"
  shows "launch P [p, b] w = retarget b (launch P [p, a] w) \<and>
         returned_status (launch P [p, b] w) = returned_status (launch P [p, a] w) \<and>
         run_written w (launch P [p, b] w) = run_written w (launch P [p, a] w) \<and>
         map_option (retarget_call b) (replaced_by (launch P [p, a] w)) =
           replaced_by (launch P [p, b] w) \<and>
         attempted_execs (launch P [p, a] w) = [main_exec_call a w] \<and>
         attempted_execs (launch P [p, b] w) = [main_exec_call b w] \<and>
         retarget_call b (main_exec_call a w) = main_exec_call b w"
proof (cases "execve P (main_exec_call a w)")
  case None
  with assms have "execve P (main_exec_call b w) = None" by simp
  from launch_exec_ok [OF this] launch_exec_ok [OF None] show ?thesis
    by (simp add: retarget_world_def retarget_call_def main_exec_call_def run_written_def
        written_err_def attempted_execs_def)
next
  case (Some e)
  with assms have "execve P (main_exec_call b w) = Some e" by simp
  from launch_exec_fail [OF this] launch_exec_fail [OF Some] show ?thesis
    by (simp add: retarget_world_def retarget_call_def main_exec_call_def run_written_def
        written_err_def attempted_execs_def)
qed

theorem argument_is_opaque_witness:
  "execve limited (main_exec_call ''/mnt/config'' fresh) =
     execve limited (main_exec_call ''; rm -rf /'' fresh) \<and>
   launch limited [''wrapper'', ''; rm -rf /''] fresh =
     retarget ''; rm -rf /'' (launch limited [''wrapper'', ''/mnt/config''] fresh) \<and>
   replaced_by (launch limited [''wrapper'', ''; rm -rf /''] fresh) =
     Some (main_exec_call ''; rm -rf /'' fresh) \<and>
   run_written fresh (launch limited [''wrapper'', ''; rm -rf /''] fresh) = Some []"
proof -
  have a: "execve limited (main_exec_call ''/mnt/config'' fresh) = None"
    by (simp add: limited_def main_exec_call_def)
  have b: "execve limited (main_exec_call ''; rm -rf /'' fresh) = None"
    by (simp add: limited_def main_exec_call_def)
  have h: "execve limited (main_exec_call ''/mnt/config'' fresh) =
           execve limited (main_exec_call ''; rm -rf /'' fresh)"
    using a b by simp
  have r: "replaced_by (launch limited [''wrapper'', ''; rm -rf /''] fresh) =
             Some (main_exec_call ''; rm -rf /'' fresh)"
    "run_written fresh (launch limited [''wrapper'', ''; rm -rf /''] fresh) = Some []"
    by (simp_all add: launch_exec_ok [OF b] run_written_def written_err_def)
  from argument_is_opaque [OF h, of "''wrapper''"] h r show ?thesis
    by simp
qed



text \<open>
  Claim C10: every invocation terminates in a bounded number of steps: \<^verbatim>\<open>main\<close> is
  straight-line code, so every run either returns status 1 or is consumed by the process
  replacement, and no path runs on.

  \<^verbatim>\<open>main\<close> is a definition without recursion, so it has a value for every input. For
  every argument list that value is a return of 1 or the replacement by the \<^verbatim>\<open>execve\<close> of
  line 11, never an undefined run, and it is reached after at most two library calls.
\<close>

theorem every_run_settles:
  "(returned_status (launch P args w) = Some 1 \<and> replaced_by (launch P args w) = None \<or>
    returned_status (launch P args w) = None \<and>
      replaced_by (launch P args w) = Some (main_exec_call (last args) w) \<and>
      length args = 2) \<and>
   (case run_world (launch P args w) of
      None \<Rightarrow> False
    | Some w' \<Rightarrow> length (calls w') \<le> 2)"
proof (cases args rule: args_cases)
  case 1
  from launch_usage [OF this] show ?thesis by simp
next
  case (2 p a)
  show ?thesis
  proof (cases "execve P (main_exec_call a w)")
    case None
    from launch_exec_ok [OF this] 2 show ?thesis by simp
  next
    case (Some e)
    from launch_exec_fail [OF this] 2 show ?thesis by simp
  qed
qed

theorem every_run_settles_witness:
  "returned_status (launch refusing [''wrapper'', ''/mnt/config''] fresh) = Some 1 \<and>
   replaced_by (launch refusing [''wrapper'', ''/mnt/config''] fresh) = None \<and>
   replaced_by (launch accepting [''wrapper'', ''/mnt/config''] fresh) =
     Some (main_exec_call ''/mnt/config'' fresh) \<and>
   returned_status (launch accepting [] fresh) = Some 1"
proof -
  have r: "returned_status (launch refusing [''wrapper'', ''/mnt/config''] fresh) = Some 1"
    by (simp add: launch_exec_fail)
  have a: "replaced_by (launch accepting [''wrapper'', ''/mnt/config''] fresh) =
     Some (main_exec_call ''/mnt/config'' fresh)"
    by (simp add: launch_exec_ok)
  have u: "returned_status (launch accepting [] fresh) = Some 1"
    by (simp add: launch_usage)
  from every_run_settles [of refusing "[''wrapper'', ''/mnt/config'']" fresh] r a u
  show ?thesis by simp
qed

end
